theory Spec2Isabelle
  imports Main "HOL-Library.Sublist" "HOL-Library.AList"
begin

section \<open>JavaScript values used by the server\<close>

text \<open>
  Strings are byte strings. The string methods the source calls are modelled on them:
  \<open>startsWith\<close>, \<open>endsWith\<close>, \<open>includes\<close> (named \<open>str_includes\<close> here),
  \<open>toLowerCase\<close> (on the ASCII letters) and \<open>slice(n)\<close> (which is \<open>drop n\<close>).
\<close>

definition startsWith :: "string \<Rightarrow> string \<Rightarrow> bool" where
  "startsWith s p = prefix p s"

definition endsWith :: "string \<Rightarrow> string \<Rightarrow> bool" where
  "endsWith s p = prefix (rev p) (rev s)"

fun str_includes :: "string \<Rightarrow> string \<Rightarrow> bool" where
  "str_includes [] p = (p = [])"
| "str_includes (x # s) p = (prefix p (x # s) \<or> str_includes s p)"

definition toLowerChar :: "char \<Rightarrow> char" where
  "toLowerChar c =
     (case map_of (zip ''ABCDEFGHIJKLMNOPQRSTUVWXYZ'' ''abcdefghijklmnopqrstuvwxyz'') c of
        Some l \<Rightarrow> l
      | None \<Rightarrow> c)"

definition toLowerCase :: "string \<Rightarrow> string" where
  "toLowerCase s = map toLowerChar s"

text \<open>\<open>Array.prototype.join\<close> on strings.\<close>

fun join_with :: "string \<Rightarrow> string list \<Rightarrow> string" where
  "join_with sep [] = []"
| "join_with sep [x] = x"
| "join_with sep (x # y # ys) = x @ sep @ join_with sep (y # ys)"

text \<open>
  A value that came out of \<open>JSON.parse\<close>, or that is handed to \<open>JSON.stringify\<close>.
  An object is the list of its own properties in insertion order. A number is kept as
  the text that \<open>String(n)\<close> and \<open>JSON.stringify(n)\<close> print for it, which is the same
  text for both and a different text for different numbers (but for \<open>0\<close> and \<open>-0\<close>,
  both printed \<open>0\<close>): \<open>2\<close>, \<open>-32000\<close>, \<open>1.5\<close>, \<open>1e+21\<close>. The code only asks
  whether a number is zero and how it prints. \<open>undefined\<close> is \<open>None\<close> of
  \<open>json option\<close>.
\<close>

datatype json =
    JNull
  | JBool bool
  | JNum string
  | JStr string
  | JArr "json list"
  | JObj "(string \<times> json) list"

type_synonym jsval = "json option"

text \<open>Truthiness, as \<open>!x\<close>, \<open>x || y\<close> and \<open>if (x)\<close> test it.\<close>

fun truthy :: "jsval \<Rightarrow> bool" where
  "truthy None = False"
| "truthy (Some JNull) = False"
| "truthy (Some (JBool b)) = b"
| "truthy (Some (JNum n)) = (n \<noteq> ''0'')"
| "truthy (Some (JStr s)) = (s \<noteq> [])"
| "truthy (Some (JArr xs)) = True"
| "truthy (Some (JObj kvs)) = True"

text \<open>
  Property access \<open>v.k\<close> for the keys the source reads (none of them is a property of a
  prototype): an own property of an object, \<open>undefined\<close> on every other value that is
  not \<open>null\<close> or \<open>undefined\<close>. On \<open>null\<close> and \<open>undefined\<close> the access throws a
  \<open>TypeError\<close>; callers check for that case before they use \<open>get_prop\<close>.
\<close>

fun get_prop :: "json \<Rightarrow> string \<Rightarrow> jsval" where
  "get_prop (JObj kvs) k = map_of kvs k"
| "get_prop v k = None"

text \<open>The decimal digits of an array index, as property keys have them.\<close>

fun nat_digits :: "nat \<Rightarrow> string" where
  "nat_digits n =
     (if n < 10 then [''0123456789'' ! n]
      else nat_digits (n div 10) @ [''0123456789'' ! (n mod 10)])"

text \<open>
  \<open>String(v)\<close>, which template literals and \<open>Array.prototype.join\<close> apply: the text, or
  \<open>Inl\<close> with the message of the \<open>TypeError\<close> it throws. An object prints through
  \<open>Object.prototype.toString\<close> unless it has an own property \<open>toString\<close>, which in a
  parsed value is never a function: then the conversion falls back to \<open>valueOf\<close>,
  gets no primitive, and throws. An array prints its elements joined with commas,
  \<open>null\<close> as the empty string, and throws when the conversion of an element throws.
\<close>

definition cannot_convert :: string where
  "cannot_convert = ''Cannot convert object to primitive value''"

fun collect :: "(string + string) list \<Rightarrow> string + string list" where
  "collect [] = Inr []"
| "collect (Inl e # rs) = Inl e"
| "collect (Inr t # rs) = (case collect rs of Inl e \<Rightarrow> Inl e | Inr ts \<Rightarrow> Inr (t # ts))"

fun js_String :: "json \<Rightarrow> string + string" where
  "js_String JNull = Inr ''null''"
| "js_String (JBool b) = Inr (if b then ''true'' else ''false'')"
| "js_String (JNum n) = Inr n"
| "js_String (JStr s) = Inr s"
| "js_String (JArr xs) =
     (case collect (map (\<lambda>x. if x = JNull then Inr [] else js_String x) xs) of
        Inl e \<Rightarrow> Inl e
      | Inr ts \<Rightarrow> Inr (join_with '','' ts))"
| "js_String (JObj kvs) =
     (if map_of kvs ''toString'' \<noteq> None then Inl cannot_convert
      else Inr ''[object Object]'')"

text \<open>
  A template literal \<open>`lead${v}`\<close> in \<open>throw new Error(...)\<close>: the message of the
  error that is thrown, which is the \<open>TypeError\<close> of the conversion when that throws.
\<close>

definition template :: "jsval \<Rightarrow> string + string" where
  "template v = (case v of None \<Rightarrow> Inr ''undefined'' | Some j \<Rightarrow> js_String j)"

definition thrown_message :: "string \<Rightarrow> jsval \<Rightarrow> string" where
  "thrown_message lead v = (case template v of Inl e \<Rightarrow> e | Inr t \<Rightarrow> lead @ t)"

subsection \<open>\<open>JSON.stringify\<close>\<close>

definition hex_digit :: "nat \<Rightarrow> char" where
  "hex_digit n = ''0123456789abcdef'' ! n"

definition quote_char :: "char \<Rightarrow> string" where
  "quote_char c =
     (if c = CHR ''\"'' then [CHR 0x5C, CHR ''\"'']
      else if c = CHR 0x5C then [CHR 0x5C, CHR 0x5C]
      else if c = CHR 0x08 then [CHR 0x5C, CHR ''b'']
      else if c = CHR 0x0C then [CHR 0x5C, CHR ''f'']
      else if c = CHR 0x0A then [CHR 0x5C, CHR ''n'']
      else if c = CHR 0x0D then [CHR 0x5C, CHR ''r'']
      else if c = CHR 0x09 then [CHR 0x5C, CHR ''t'']
      else if (of_char c :: nat) < 32
        then [CHR 0x5C, CHR ''u'', CHR ''0'', CHR ''0'',
              hex_digit ((of_char c :: nat) div 16), hex_digit ((of_char c :: nat) mod 16)]
      else [c])"

definition quote :: "string \<Rightarrow> string" where
  "quote s = [CHR ''\"''] @ concat (map quote_char s) @ [CHR ''\"'']"

text \<open>
  \<open>JSON.stringify(v, null, gap)\<close>: \<open>gap\<close> is the empty string for the compact form and
  two blanks for \<open>JSON.stringify(v, null, 2)\<close>; \<open>ind\<close> is the current indentation.
\<close>

fun stringify :: "string \<Rightarrow> string \<Rightarrow> json \<Rightarrow> string" where
  "stringify gap ind JNull = ''null''"
| "stringify gap ind (JBool b) = (if b then ''true'' else ''false'')"
| "stringify gap ind (JNum n) = n"
| "stringify gap ind (JStr s) = quote s"
| "stringify gap ind (JArr xs) =
     (if xs = [] then ''[]''
      else if gap = [] then
        ''['' @ join_with '','' (map (stringify gap (ind @ gap)) xs) @ '']''
      else
        ''['' @ [CHR 0x0A] @ ind @ gap
          @ join_with ('','' @ [CHR 0x0A] @ ind @ gap) (map (stringify gap (ind @ gap)) xs)
          @ [CHR 0x0A] @ ind @ '']'')"
| "stringify gap ind (JObj kvs) =
     (if kvs = [] then ''{}''
      else if gap = [] then
        ''{'' @ join_with '',''
                 (map (\<lambda>(k, v). quote k @ '':'' @ stringify gap (ind @ gap) v) kvs) @ ''}''
      else
        ''{'' @ [CHR 0x0A] @ ind @ gap
          @ join_with ('','' @ [CHR 0x0A] @ ind @ gap)
              (map (\<lambda>(k, v). quote k @ '': '' @ stringify gap (ind @ gap) v) kvs)
          @ [CHR 0x0A] @ ind @ ''}'')"

definition JSON_stringify :: "json \<Rightarrow> string" where
  "JSON_stringify v = stringify [] [] v"

definition JSON_stringify2 :: "json \<Rightarrow> string" where
  "JSON_stringify2 v = stringify ''  '' [] v"

section \<open>The Node.js library and the file system\<close>

text \<open>
  What at a path of the file system is, as \<open>fs.stat\<close> and \<open>fs.readdir\<close> see it (both
  follow symbolic links): a regular file, a directory with its entries in the order
  \<open>readdir\<close> lists them, a directory whose listing is refused with an error message,
  something that is neither (a socket, a device), or an entry on which \<open>stat\<close> itself
  fails with an error message (a dangling link). The snapshot is a finite tree.
\<close>

datatype node =
    File
  | Dir "(string \<times> node) list"
  | NoList string
  | Other
  | Failing string

fun isDirectory :: "node \<Rightarrow> bool" where
  "isDirectory (Dir items) = True"
| "isDirectory (NoList msg) = True"
| "isDirectory n = False"

fun isFile :: "node \<Rightarrow> bool" where
  "isFile File = True"
| "isFile n = False"

text \<open>
  The functions of the Node.js library that the server calls, and the regular-expression
  scanners of the source whose bodies are not embedded (\<open>extractJSAPIEndpoints\<close>,
  \<open>extractPythonAPIEndpoints\<close>); every result below holds for each choice of them.
  A library call that throws or rejects returns \<open>Inl\<close> with the error's message.
  \<open>path_arg_error\<close> is the message of the \<open>TypeError\<close> that \<open>fs.readdir\<close> raises for
  a path that is not a string. \<open>fs_node\<close> gives what a path is in the snapshot of the
  file system (\<open>Failing\<close> when nothing is there); \<open>fs_readFile\<close> is
  \<open>fs.readFile(path, 'utf-8')\<close>, and \<open>fs_access\<close> tells whether \<open>fs.access\<close> succeeds.
\<close>

record node_env =
  path_join :: "string \<Rightarrow> string \<Rightarrow> string"
  path_extname :: "string \<Rightarrow> string"
  JSON_parse :: "string \<Rightarrow> string + json"
  path_arg_error :: "jsval \<Rightarrow> string"
  fs_node :: "string \<Rightarrow> node"
  fs_readFile :: "string \<Rightarrow> string + string"
  fs_access :: "string \<Rightarrow> bool"
  extractJSAPIEndpoints :: "string \<Rightarrow> string list"
  extractPythonAPIEndpoints :: "string \<Rightarrow> string list"

definition enotdir :: "string \<Rightarrow> string" where
  "enotdir dir = ''ENOTDIR: not a directory, scandir '' @ [CHR 0x27] @ dir @ [CHR 0x27]"

section \<open>Helper methods of the server\<close>

text \<open>
  \<open>getAllFiles(dir, files)\<close>. The node is what \<open>dir\<close> is in the snapshot; \<open>files\<close> is
  the array the calls share and push to. \<open>getAllFiles_items\<close> is the loop over the
  entries of one directory.
\<close>

fun getAllFiles :: "node_env \<Rightarrow> string \<Rightarrow> node \<Rightarrow> string list \<Rightarrow> string + string list"
  and getAllFiles_items ::
    "node_env \<Rightarrow> string \<Rightarrow> (string \<times> node) list \<Rightarrow> string list \<Rightarrow> string + string list"
where
  "getAllFiles E dir (Dir items) files = getAllFiles_items E dir items files"
| "getAllFiles E dir (NoList msg) files = Inl msg"
| "getAllFiles E dir (Failing msg) files = Inl msg"
| "getAllFiles E dir File files = Inl (enotdir dir)"
| "getAllFiles E dir Other files = Inl (enotdir dir)"
| "getAllFiles_items E dir [] files = Inr files"
| "getAllFiles_items E dir ((item, n) # rest) files =
     (let fullPath = path_join E dir item in
      case n of
        Failing msg \<Rightarrow> Inl msg
      | _ \<Rightarrow>
        if isDirectory n \<and> \<not> startsWith item ''.'' \<and> item \<noteq> ''node_modules'' then
          (case getAllFiles E fullPath n files of
             Inl msg \<Rightarrow> Inl msg
           | Inr files' \<Rightarrow> getAllFiles_items E dir rest files')
        else if isFile n then getAllFiles_items E dir rest (files @ [fullPath])
        else getAllFiles_items E dir rest files)"

definition isTestFile :: "string \<Rightarrow> bool" where
  "isTestFile filePath =
     (let filename = toLowerCase filePath in
      str_includes filename ''test'' \<or> str_includes filename ''spec'' \<or>
      endsWith filename ''.test.js'' \<or> endsWith filename ''.spec.js'' \<or>
      endsWith filename ''.test.ts'' \<or> endsWith filename ''.spec.ts'' \<or>
      endsWith filename ''_test.py'' \<or> endsWith filename ''_test.go'')"

definition isSourceFile :: "node_env \<Rightarrow> string \<Rightarrow> bool" where
  "isSourceFile E filePath =
     (let ext = path_extname E filePath in
      ext \<in> set [''.js'', ''.ts'', ''.py'', ''.go'', ''.java'', ''.cpp'', ''.c''] \<and>
      \<not> isTestFile filePath)"

subsection \<open>What the walker is claimed to return\<close>

text \<open>
  Every regular file of a tree, as the chain of entry names that leads to it from the
  root, in listing order.
\<close>

fun file_chains :: "node \<Rightarrow> string list list"
  and file_chains_items :: "(string \<times> node) list \<Rightarrow> string list list"
where
  "file_chains File = [[]]"
| "file_chains (Dir items) = file_chains_items items"
| "file_chains (NoList msg) = []"
| "file_chains Other = []"
| "file_chains (Failing msg) = []"
| "file_chains_items [] = []"
| "file_chains_items ((item, n) # rest) = map ((#) item) (file_chains n) @ file_chains_items rest"

definition hidden :: "string \<Rightarrow> bool" where
  "hidden item = startsWith item ''.''"

definition excluded_dir :: "string \<Rightarrow> bool" where
  "excluded_dir item = (hidden item \<or> item = ''node_modules'')"

text \<open>
  The files the claim describes: no name on the chain is hidden, and no directory on it
  is \<open>node_modules\<close>.
\<close>

definition claimed_file :: "string list \<Rightarrow> bool" where
  "claimed_file chain =
     (\<not> list_ex hidden chain \<and> \<not> list_ex (\<lambda>d. d = ''node_modules'') (butlast chain))"

text \<open>
  The files the walker lists: no directory on the chain is hidden or \<open>node_modules\<close>;
  the name of the file itself is not looked at.
\<close>

definition listed_file :: "string list \<Rightarrow> bool" where
  "listed_file chain = (\<not> list_ex excluded_dir (butlast chain))"

definition chain_path :: "node_env \<Rightarrow> string \<Rightarrow> string list \<Rightarrow> string" where
  "chain_path E dir chain = foldl (path_join E) dir chain"

text \<open>
  The walk of a tree meets no error: the root is a listable directory, \<open>stat\<close> fails on
  no entry of a directory that is walked, and every directory that is walked into can be
  listed.
\<close>

fun walkable :: "node \<Rightarrow> bool"
  and walkable_items :: "(string \<times> node) list \<Rightarrow> bool"
where
  "walkable (Dir items) = walkable_items items"
| "walkable File = False"
| "walkable (NoList msg) = False"
| "walkable Other = False"
| "walkable (Failing msg) = False"
| "walkable_items [] = True"
| "walkable_items ((item, n) # rest) =
     ((case n of
         Failing msg \<Rightarrow> False
       | _ \<Rightarrow> if isDirectory n \<and> \<not> excluded_dir item then walkable n else True)
      \<and> walkable_items rest)"

text \<open>
  An environment for running the definitions: paths are joined with a slash, no file
  exists and no text parses. The examples below override the fields they need.
\<close>

definition empty_env :: node_env where
  "empty_env = \<lparr>path_join = (\<lambda>dir item. dir @ ''/'' @ item),
            path_extname = (\<lambda>p. []),
            JSON_parse = (\<lambda>s. Inl ''Unexpected token''),
            path_arg_error = (\<lambda>v. ''The path argument must be of type string''),
            fs_node = (\<lambda>p. Failing ''ENOENT''),
            fs_readFile = (\<lambda>p. Inl ''ENOENT''),
            fs_access = (\<lambda>p. False),
            extractJSAPIEndpoints = (\<lambda>code. []),
            extractPythonAPIEndpoints = (\<lambda>code. [])\<rparr>"

section \<open>Tool results\<close>

text \<open>The object \<open>{ content: [ { type: 'text', text: t } ] }\<close> every tool returns.\<close>

definition text_result :: "string \<Rightarrow> json" where
  "text_result t =
     JObj [(''content'', JArr [JObj [(''type'', JStr ''text''), (''text'', JStr t)]])]"

text \<open>
  A promise that an \<open>await\<close> waits for: fulfilled with a value, rejected with an error
  (its message), or never settled.
\<close>

datatype 'a promise = Fulfilled 'a | Rejected string | Pending

section \<open>\<open>package.json\<close> and the framework detection\<close>

text \<open>
  \<open>JSON.parse(await fs.readFile(join(projectPath, 'package.json'), 'utf-8'))\<close>, or
  \<open>None\<close> when one of the three calls throws. \<open>path.join\<close> throws on an argument
  that is not a string.
\<close>

definition read_package :: "node_env \<Rightarrow> jsval \<Rightarrow> json option" where
  "read_package E projectPath =
     (case projectPath of
        Some (JStr p) \<Rightarrow>
          (case fs_readFile E (path_join E p ''package.json'') of
             Inl msg \<Rightarrow> None
           | Inr packageJson \<Rightarrow>
               (case JSON_parse E packageJson of Inl msg \<Rightarrow> None | Inr pkg \<Rightarrow> Some pkg))
      | _ \<Rightarrow> None)"

text \<open>The own enumerable properties that a spread \<open>...v\<close> copies.\<close>

fun own_props :: "jsval \<Rightarrow> (string \<times> json) list" where
  "own_props (Some (JObj kvs)) = kvs"
| "own_props (Some (JArr xs)) = zip (map nat_digits [0..<length xs]) xs"
| "own_props (Some (JStr s)) = zip (map nat_digits [0..<length s]) (map (\<lambda>c. JStr [c]) s)"
| "own_props v = []"

text \<open>
  \<open>deps = { ...pkg.dependencies, ...pkg.devDependencies }\<close>, as the lookup \<open>deps.k\<close>;
  \<open>None\<close> when \<open>pkg\<close> is \<open>null\<close> and the property access throws.
\<close>

definition package_deps :: "json \<Rightarrow> (string \<Rightarrow> jsval) option" where
  "package_deps pkg =
     (if pkg = JNull then None
      else Some (map_of (own_props (get_prop pkg ''dependencies''))
                 ++ map_of (own_props (get_prop pkg ''devDependencies''))))"

text \<open>\<open>await fs.access(join(projectPath, name))\<close> does not throw.\<close>

definition can_access :: "node_env \<Rightarrow> jsval \<Rightarrow> string \<Rightarrow> bool" where
  "can_access E projectPath name =
     (case projectPath of Some (JStr p) \<Rightarrow> fs_access E (path_join E p name) | _ \<Rightarrow> False)"

definition detectTestFramework :: "node_env \<Rightarrow> jsval \<Rightarrow> string" where
  "detectTestFramework E projectPath =
     (let from_package =
        (case read_package E projectPath of
           None \<Rightarrow> None
         | Some pkg \<Rightarrow>
             (case package_deps pkg of
                None \<Rightarrow> None
              | Some deps \<Rightarrow>
                  if truthy (deps ''jest'') then Some ''jest''
                  else if truthy (deps ''mocha'') then Some ''mocha''
                  else if truthy (deps ''vitest'') then Some ''vitest''
                  else None))
      in case from_package of
           Some fw \<Rightarrow> fw
         | None \<Rightarrow>
             if can_access E projectPath ''requirements.txt'' then ''pytest''
             else if can_access E projectPath ''go.mod'' then ''go''
             else ''jest'')"

section \<open>\<open>analyzeCodebase\<close>\<close>

text \<open>
  The \<open>analysis\<close> object. Its literal has the four properties \<open>language\<close>,
  \<open>apiEndpoints\<close>, \<open>testableComponents\<close> and \<open>existingTests\<close>; \<open>testFramework\<close> and
  \<open>framework\<close> are added by assignment, so they follow in the order of their first
  assignment (\<open>assigned\<close>), which is the order \<open>JSON.stringify\<close> prints them in.
\<close>

record CodeAnalysis =
  language :: string
  apiEndpoints :: "string list"
  testableComponents :: "string list"
  existingTests :: "string list"
  assigned :: "(string \<times> string) list"

definition assign :: "string \<Rightarrow> string \<Rightarrow> CodeAnalysis \<Rightarrow> CodeAnalysis" where
  "assign k v a = a\<lparr>assigned := AList.update k v (assigned a)\<rparr>"

definition analysis_json :: "CodeAnalysis \<Rightarrow> json" where
  "analysis_json a =
     JObj ([(''language'', JStr (language a)),
            (''apiEndpoints'', JArr (map JStr (apiEndpoints a))),
            (''testableComponents'', JArr (map JStr (testableComponents a))),
            (''existingTests'', JArr (map JStr (existingTests a)))]
           @ map (\<lambda>(k, v). (k, JStr v)) (assigned a))"

text \<open>The first \<open>try\<close> block: \<open>package.json\<close>.\<close>

definition analyze_package :: "node_env \<Rightarrow> jsval \<Rightarrow> CodeAnalysis \<Rightarrow> CodeAnalysis" where
  "analyze_package E projectPath a =
     (case read_package E projectPath of
        None \<Rightarrow> a
      | Some pkg \<Rightarrow>
          (let a1 = a\<lparr>language := ''javascript''\<rparr> in
           case package_deps pkg of
             None \<Rightarrow> a1
           | Some deps \<Rightarrow>
               (let a2 = (if truthy (deps ''jest'') then assign ''testFramework'' ''jest'' a1
                          else if truthy (deps ''mocha'') then assign ''testFramework'' ''mocha'' a1
                          else if truthy (deps ''vitest'') then assign ''testFramework'' ''vitest'' a1
                          else a1)
                in if truthy (deps ''react'') then assign ''framework'' ''react'' a2
                   else if truthy (deps ''vue'') then assign ''framework'' ''vue'' a2
                   else if truthy (deps ''express'') then assign ''framework'' ''express'' a2
                   else if truthy (deps ''fastify'') then assign ''framework'' ''fastify'' a2
                   else a2)))"

text \<open>The second \<open>try\<close> block: \<open>requirements.txt\<close>.\<close>

definition analyze_requirements :: "node_env \<Rightarrow> jsval \<Rightarrow> CodeAnalysis \<Rightarrow> CodeAnalysis" where
  "analyze_requirements E projectPath a =
     (if can_access E projectPath ''requirements.txt''
      then assign ''testFramework'' ''pytest'' (a\<lparr>language := ''python''\<rparr>)
      else a)"

text \<open>
  \<open>await this.getAllFiles(projectPath)\<close>: \<open>fs.readdir\<close> rejects a path that is not a
  string.
\<close>

definition project_files :: "node_env \<Rightarrow> jsval \<Rightarrow> string + string list" where
  "project_files E projectPath =
     (case projectPath of
        Some (JStr p) \<Rightarrow> getAllFiles E p (fs_node E p) []
      | v \<Rightarrow> Inl (path_arg_error E v))"

text \<open>The loop \<open>for (const file of files)\<close>; reading a file may reject.\<close>

fun scan_files :: "node_env \<Rightarrow> string list \<Rightarrow> CodeAnalysis \<Rightarrow> string + CodeAnalysis" where
  "scan_files E [] a = Inr a"
| "scan_files E (file # files) a =
     (let ext = path_extname E file in
      case fs_readFile E file of
        Inl msg \<Rightarrow> Inl msg
      | Inr content \<Rightarrow>
          (let a1 = (if ext = ''.js'' \<or> ext = ''.ts''
                       then a\<lparr>apiEndpoints := apiEndpoints a @ extractJSAPIEndpoints E content\<rparr>
                     else if ext = ''.py''
                       then a\<lparr>apiEndpoints := apiEndpoints a @ extractPythonAPIEndpoints E content\<rparr>
                     else a);
                a2 = (if isSourceFile E file
                       then a1\<lparr>testableComponents := testableComponents a1 @ [file]\<rparr>
                      else a1);
                a3 = (if isTestFile file
                       then a2\<lparr>existingTests := existingTests a2 @ [file]\<rparr>
                      else a2)
           in scan_files E files a3))"

text \<open>The body of the outer \<open>try\<close> of \<open>analyzeCodebase\<close>, up to the finished analysis.\<close>

definition analyze :: "node_env \<Rightarrow> jsval \<Rightarrow> string + CodeAnalysis" where
  "analyze E projectPath =
     (let analysis = \<lparr>language = [], apiEndpoints = [], testableComponents = [],
                       existingTests = [], assigned = []\<rparr>;
          analysis1 = analyze_package E projectPath analysis;
          analysis2 = analyze_requirements E projectPath analysis1
      in case project_files E projectPath of
           Inl msg \<Rightarrow> Inl msg
         | Inr files \<Rightarrow> scan_files E files analysis2)"

definition analyzeCodebase :: "node_env \<Rightarrow> jsval \<Rightarrow> json promise" where
  "analyzeCodebase E projectPath =
     (case analyze E projectPath of
        Inl msg \<Rightarrow> Rejected (''Failed to analyze codebase: '' @ msg)
      | Inr analysis \<Rightarrow> Fulfilled (text_result (JSON_stringify2 (analysis_json analysis))))"

text \<open>A small project, for running the definitions.\<close>

definition demo_tree :: node where
  "demo_tree =
     Dir [(''package.json'', File),
          (''src'', Dir [(''app.ts'', File), (''app.test.ts'', File), (''notes.md'', File)]),
          (''node_modules'', Dir [(''jest.js'', File)])]"

definition demo :: node_env where
  "demo = empty_env\<lparr>
     path_extname := (\<lambda>p. if endsWith p ''.ts'' then ''.ts''
                          else if endsWith p ''.json'' then ''.json''
                          else if endsWith p ''.md'' then ''.md'' else []),
     JSON_parse := (\<lambda>s. if s = ''{\"devDependencies\":{\"jest\":\"^29\"}}''
                          then Inr (JObj [(''devDependencies'', JObj [(''jest'', JStr ''^29'')])])
                        else Inl ''Unexpected token''),
     fs_node := (\<lambda>p. if p = ''proj'' then demo_tree else Failing ''ENOENT''),
     fs_readFile := (\<lambda>p. if p = ''proj/package.json''
                            then Inr ''{\"devDependencies\":{\"jest\":\"^29\"}}''
                          else if p = ''proj/src/app.ts'' \<or> p = ''proj/src/app.test.ts''
                               \<or> p = ''proj/src/notes.md''
                            then Inr ''export const f = 1''
                          else Inl ''ENOENT''),
     fs_access := (\<lambda>p. p = ''proj/package.json'')\<rparr>"

section \<open>\<open>runTests\<close>\<close>

text \<open>
  \<open>execAsync(command, { cwd, timeout })\<close>, the promisified \<open>child_process.exec\<close>: it is
  given the command line, the working directory and the timeout in milliseconds, acts
  on the world (it spawns a process), and its promise is fulfilled with
  \<open>{ stdout, stderr }\<close>, rejected with an error (non-zero exit, spawn or I/O error,
  timeout, too much output), or never settled.
\<close>

type_synonym 'w exec = "string \<Rightarrow> jsval \<Rightarrow> nat \<Rightarrow> 'w \<Rightarrow> (string \<times> string) promise \<times> 'w"

record TestResult =
  success :: bool
  output' :: string
  errors :: string

definition TestResult_json :: "TestResult \<Rightarrow> json" where
  "TestResult_json r =
     JObj [(''success'', JBool (success r)),
           (''output'', JStr (output' r)),
           (''errors'', JStr (errors r))]"

text \<open>
  \<open>args.join(' ')\<close>: every element is converted with \<open>String\<close>; \<open>Inl\<close> when a
  conversion throws.
\<close>

definition array_join :: "string \<Rightarrow> json list \<Rightarrow> string + string" where
  "array_join sep xs =
     (case collect (map (\<lambda>x. if x = JNull then Inr [] else js_String x) xs) of
        Inl e \<Rightarrow> Inl e
      | Inr ts \<Rightarrow> Inr (join_with sep ts))"

text \<open>The template literal \<open>`${command} ${args.join(' ')}`\<close>.\<close>

definition command_line :: "string \<Rightarrow> json list \<Rightarrow> string + string" where
  "command_line command args =
     (case array_join '' '' args of Inl e \<Rightarrow> Inl e | Inr a \<Rightarrow> Inr (command @ '' '' @ a))"

text \<open>
  The \<open>switch (framework)\<close> of \<open>runTests\<close> with the template literal that follows it:
  the command line handed to \<open>exec\<close>, or the message of the error thrown (for a
  framework that is not supported, or by a conversion to a string).
  \<open>if (testPattern) args.push(testPattern)\<close> pushes a truthy value.
\<close>

definition test_command :: "jsval \<Rightarrow> jsval \<Rightarrow> string + string" where
  "test_command framework testPattern =
     (let pattern = (if truthy testPattern then [the testPattern] else [])
      in if framework = Some (JStr ''jest'')
           then command_line ''npx''
                  ([JStr ''jest''] @ pattern @ [JStr ''--verbose'', JStr ''--coverage''])
         else if framework = Some (JStr ''pytest'')
           then command_line ''python''
                  ([JStr ''-m'', JStr ''pytest''] @ pattern @ [JStr ''-v'', JStr ''--cov=.''])
         else if framework = Some (JStr ''go'')
           then command_line ''go''
                  ([JStr ''test''] @ pattern @ [JStr ''-v'', JStr ''-cover''])
         else Inl (thrown_message ''Unsupported test framework: '' framework))"

text \<open>The result built in the \<open>catch\<close> block of \<open>runTests\<close>.\<close>

definition failed_run :: "string \<Rightarrow> json" where
  "failed_run msg =
     text_result (JSON_stringify2
       (TestResult_json \<lparr>success = False, output' = [], errors = msg\<rparr>))"

text \<open>
  \<open>if (!framework) framework = await this.detectTestFramework(projectPath)\<close>: the
  framework that the \<open>switch\<close> sees.
\<close>

definition chosen_framework :: "node_env \<Rightarrow> jsval \<Rightarrow> jsval \<Rightarrow> jsval" where
  "chosen_framework E projectPath framework =
     (if \<not> truthy framework then Some (JStr (detectTestFramework E projectPath))
      else framework)"

definition runTests ::
  "node_env \<Rightarrow> 'w exec \<Rightarrow> jsval \<Rightarrow> jsval \<Rightarrow> jsval \<Rightarrow> 'w \<Rightarrow> json promise \<times> 'w" where
  "runTests E exec projectPath testPattern framework w =
     (let framework' = chosen_framework E projectPath framework
      in case test_command framework' testPattern of
           Inl msg \<Rightarrow> (Fulfilled (failed_run msg), w)
         | Inr command \<Rightarrow>
             (case exec command projectPath 60000 w of
                (Fulfilled (stdout, stderr), w') \<Rightarrow>
                  (Fulfilled (text_result (JSON_stringify2
                     (TestResult_json
                        \<lparr>success = (stderr = []), output' = stdout, errors = stderr\<rparr>))), w')
              | (Rejected msg, w') \<Rightarrow> (Fulfilled (failed_run msg), w')
              | (Pending, w') \<Rightarrow> (Pending, w')))"

subsection \<open>How \<open>child_process.exec\<close> settles its promise\<close>

text \<open>
  \<open>exec\<close> starts a shell that runs the command, collects the two output streams, and
  settles when the shell has ended. What is observed of one run: how the shell ended
  (by itself with an exit code, by a signal, or not at all), what the streams
  carried, the message of the error \<open>exec\<close> builds when it rejects, and whether a
  process that the command started is still running when the promise settles. On a
  timeout, and when a stream exceeds \<open>maxBuffer\<close>, \<open>exec\<close> signals the shell it started
  and nothing else. The promise is fulfilled exactly when the shell ended by itself
  with code zero and neither stream exceeded \<open>maxBuffer\<close> (1 MiB by default, which is
  what \<open>runTests\<close> leaves it at); it is never settled when the shell never ends.
  The world gives the run of a command in a directory under a timeout (or the message
  of the error when the shell cannot be started) and records, for each command run,
  whether something of it was left running.
\<close>

datatype shell_end = Exit int | Signal | Never

record run =
  ended :: shell_end
  run_stdout :: string
  run_stderr :: string
  run_error :: string
  left_running :: bool

datatype process_state = Gone | Running

record os =
  runs :: "string \<Rightarrow> jsval \<Rightarrow> nat \<Rightarrow> string + run"
  spawned :: "(string \<times> process_state) list"

definition max_buffer :: nat where
  "max_buffer = 1024 * 1024"

definition node_exec :: "os exec" where
  "node_exec command cwd timeout w =
     (case runs w command cwd timeout of
        Inl msg \<Rightarrow> (Rejected msg, w)
      | Inr r \<Rightarrow>
          (let w' = w\<lparr>spawned := spawned w
                        @ [(command, if left_running r then Running else Gone)]\<rparr>
           in if ended r = Never then
                (Pending, w\<lparr>spawned := spawned w @ [(command, Running)]\<rparr>)
              else if ended r = Exit 0 \<and> length (run_stdout r) \<le> max_buffer
                      \<and> length (run_stderr r) \<le> max_buffer then
                (Fulfilled (run_stdout r, run_stderr r), w')
              else (Rejected (run_error r), w')))"

section \<open>The placeholder tools\<close>





section \<open>The tool methods of the server object\<close>

text \<open>
  The seven methods that the two dispatchers call through \<open>this\<close>. Each takes its
  arguments and the world and returns its promise and the world it leaves. The
  dispatchers are defined over any such table, so that what they do without calling a
  method holds whatever the methods are.
\<close>

record 'w methods =
  this_analyzeCodebase :: "jsval \<Rightarrow> 'w \<Rightarrow> json promise \<times> 'w"
  this_generateUnitTests :: "jsval \<Rightarrow> jsval \<Rightarrow> jsval \<Rightarrow> 'w \<Rightarrow> json promise \<times> 'w"
  this_generateIntegrationTests :: "jsval \<Rightarrow> jsval \<Rightarrow> 'w \<Rightarrow> json promise \<times> 'w"
  this_runTests :: "jsval \<Rightarrow> jsval \<Rightarrow> jsval \<Rightarrow> 'w \<Rightarrow> json promise \<times> 'w"
  this_analyzeTestResults :: "jsval \<Rightarrow> jsval \<Rightarrow> 'w \<Rightarrow> json promise \<times> 'w"
  this_suggestFixes :: "jsval \<Rightarrow> jsval \<Rightarrow> jsval \<Rightarrow> 'w \<Rightarrow> json promise \<times> 'w"
  this_setupTestingFramework :: "jsval \<Rightarrow> jsval \<Rightarrow> jsval \<Rightarrow> 'w \<Rightarrow> json promise \<times> 'w"


text \<open>
  A table for running the dispatchers: every method counts its call in the world and
  returns a text that names it.
\<close>

definition counting :: "nat methods" where
  "counting =
     \<lparr>this_analyzeCodebase = (\<lambda>p w. (Fulfilled (text_result ''analyzeCodebase''), Suc w)),
      this_generateUnitTests = (\<lambda>a b c w. (Fulfilled (text_result ''generateUnitTests''), Suc w)),
      this_generateIntegrationTests =
        (\<lambda>a b w. (Fulfilled (text_result ''generateIntegrationTests''), Suc w)),
      this_runTests = (\<lambda>a b c w. (Fulfilled (text_result ''runTests''), Suc w)),
      this_analyzeTestResults = (\<lambda>a b w. (Fulfilled (text_result ''analyzeTestResults''), Suc w)),
      this_suggestFixes = (\<lambda>a b c w. (Fulfilled (text_result ''suggestFixes''), Suc w)),
      this_setupTestingFramework =
        (\<lambda>a b c w. (Fulfilled (text_result ''setupTestingFramework''), Suc w))\<rparr>"

section \<open>The tool descriptors\<close>

text \<open>
  One descriptor literal \<open>{ name, description, inputSchema: { type: 'object',
  properties, required } }\<close>; a property is \<open>k: { type, description }\<close>.
\<close>

definition schema_property :: "string \<times> string \<times> string \<Rightarrow> string \<times> json" where
  "schema_property p =
     (case p of (k, ty, d) \<Rightarrow> (k, JObj [(''type'', JStr ty), (''description'', JStr d)]))"

definition descriptor ::
  "string \<Rightarrow> string \<Rightarrow> (string \<times> string \<times> string) list \<Rightarrow> string list \<Rightarrow> json" where
  "descriptor name description properties required =
     JObj [(''name'', JStr name),
           (''description'', JStr description),
           (''inputSchema'',
            JObj [(''type'', JStr ''object''),
                  (''properties'', JObj (map schema_property properties)),
                  (''required'', JArr (map JStr required))])]"

text \<open>The literal of the \<open>ListToolsRequestSchema\<close> handler (standard streams).\<close>

definition stdio_tools :: "json list" where
  "stdio_tools =
     [descriptor ''analyze_codebase''
        ''Analyze project structure and identify testable components''
        [(''projectPath'', ''string'', ''Path to the project directory'')]
        [''projectPath''],
      descriptor ''generate_unit_tests''
        ''Generate unit tests for specific functions or components''
        [(''filePath'', ''string'', ''Path to the file to test''),
         (''functionName'', ''string'', ''Specific function to test (optional)''),
         (''testFramework'', ''string'',
          ''Testing framework to use (jest, mocha, pytest, etc.)'')]
        [''filePath''],
      descriptor ''generate_integration_tests''
        ''Generate integration tests for API endpoints''
        [(''projectPath'', ''string'', ''Path to the project directory''),
         (''apiSpec'', ''string'', ''API specification or documentation'')]
        [''projectPath''],
      descriptor ''run_tests''
        ''Execute tests and return results''
        [(''projectPath'', ''string'', ''Path to the project directory''),
         (''testPattern'', ''string'', ''Test file pattern or specific test to run''),
         (''framework'', ''string'', ''Test framework (auto-detected if not specified)'')]
        [''projectPath''],
      descriptor ''analyze_test_results''
        ''Analyze test results and provide insights''
        [(''testOutput'', ''string'', ''Raw test output to analyze''),
         (''projectPath'', ''string'', ''Path to the project directory'')]
        [''testOutput''],
      descriptor ''suggest_fixes''
        ''Analyze failing tests and suggest code fixes''
        [(''failureOutput'', ''string'', ''Test failure output''),
         (''sourceCode'', ''string'', ''Source code that failed''),
         (''testCode'', ''string'', ''Test code that failed'')]
        [''failureOutput''],
      descriptor ''setup_testing_framework''
        ''Initialize testing framework in a project''
        [(''projectPath'', ''string'', ''Path to the project directory''),
         (''framework'', ''string'',
          ''Testing framework to set up (jest, mocha, pytest, etc.)''),
         (''language'', ''string'',
          ''Programming language (javascript, python, go, etc.)'')]
        [''projectPath'', ''framework'', ''language'']]"

text \<open>The literal of the \<open>tools/list\<close> branch of \<open>runHTTP\<close>.\<close>

definition http_tools :: "json list" where
  "http_tools =
     [descriptor ''analyze_codebase''
        ''Analyze project structure and identify testable components''
        [(''projectPath'', ''string'', ''Path to the project directory'')]
        [''projectPath''],
      descriptor ''generate_unit_tests''
        ''Generate unit tests for specific functions or components''
        [(''filePath'', ''string'', ''Path to the file to test''),
         (''functionName'', ''string'', ''Specific function to test (optional)''),
         (''testFramework'', ''string'',
          ''Testing framework to use (jest, mocha, pytest, etc.)'')]
        [''filePath''],
      descriptor ''run_tests''
        ''Execute tests and return results''
        [(''projectPath'', ''string'', ''Path to the project directory''),
         (''testPattern'', ''string'', ''Test file pattern or specific test to run''),
         (''framework'', ''string'', ''Test framework (auto-detected if not specified)'')]
        [''projectPath'']]"

definition tool_names :: "json list \<Rightarrow> jsval list" where
  "tool_names tools = map (\<lambda>t. get_prop t ''name'') tools"

section \<open>The standard-stream request handlers\<close>

text \<open>
  The handler registered for \<open>ListToolsRequestSchema\<close>. It takes the world only so
  that repeated calls can be compared.
\<close>

definition listTools :: "'w \<Rightarrow> json promise \<times> 'w" where
  "listTools w = (Fulfilled (JObj [(''tools'', JArr stdio_tools)]), w)"



section \<open>The HTTP request listener\<close>

record http_request =
  req_method :: "string option"
  req_url :: "string option"
  req_authorization :: "string option"
  req_body :: string

record http_response =
  status :: nat
  headers :: "(string \<times> string) list"
  body :: string

definition authenticateRequest :: "string option \<Rightarrow> http_request \<Rightarrow> bool" where
  "authenticateRequest MCP_API_KEY req =
     (let authHeader = req_authorization req;
          apiKey = (case MCP_API_KEY of
                      None \<Rightarrow> ''default-dev-key''
                    | Some k \<Rightarrow> if k = [] then ''default-dev-key'' else k)
      in case authHeader of
           None \<Rightarrow> False
         | Some h \<Rightarrow>
             if h = [] then False
             else (let token = (if startsWith h ''Bearer '' then drop 7 h else h)
                   in token = apiKey))"

definition cors_headers :: "(string \<times> string) list" where
  "cors_headers =
     [(''Access-Control-Allow-Origin'', ''*''),
      (''Access-Control-Allow-Methods'', ''GET, POST, OPTIONS''),
      (''Access-Control-Allow-Headers'', ''Content-Type, Authorization, X-API-Key'')]"

text \<open>\<open>res.writeHead(code, { 'Content-Type': 'application/json' }); res.end(JSON.stringify(v))\<close>.\<close>

definition json_response :: "nat \<Rightarrow> json \<Rightarrow> http_response" where
  "json_response code v =
     \<lparr>status = code,
      headers = cors_headers @ [(''Content-Type'', ''application/json'')],
      body = JSON_stringify v\<rparr>"

text \<open>The two envelopes built at the end of the \<open>try\<close> and in the \<open>catch\<close>.\<close>

definition rpc_result :: "json \<Rightarrow> json \<Rightarrow> json" where
  "rpc_result request result =
     JObj [(''jsonrpc'', JStr ''2.0''),
           (''result'', result),
           (''id'', (let id = get_prop request ''id'' in if truthy id then the id else JNull))]"

definition rpc_error :: "string \<Rightarrow> json" where
  "rpc_error message =
     JObj [(''jsonrpc'', JStr ''2.0''),
           (''error'', JObj [(''code'', JNum ''-32000''), (''message'', JStr message)]),
           (''id'', JNull)]"

text \<open>
  The messages of the \<open>TypeError\<close> that the engine throws when \<open>request.method\<close> is
  read on \<open>null\<close> and when \<open>request.params\<close> is destructured while \<open>null\<close> or
  \<open>undefined\<close>.
\<close>

definition null_request_error :: string where
  "null_request_error = ''Cannot read properties of null (reading 'method')''"

definition destructure_error :: "jsval \<Rightarrow> string" where
  "destructure_error params =
     ''Cannot destructure property 'name' of 'request.params' as it is ''
       @ (if params = None then ''undefined'' else ''null'') @ ''.''"

text \<open>
  The \<open>switch (name)\<close> of the \<open>tools/call\<close> branch. The name is whatever JSON value the
  request carries; a \<open>case\<close> label matches by strict equality.
\<close>

definition http_switch :: "'w methods \<Rightarrow> jsval \<Rightarrow> json \<Rightarrow> 'w \<Rightarrow> json promise \<times> 'w" where
  "http_switch this name args w =
     (if name = Some (JStr ''analyze_codebase'') then
        this_analyzeCodebase this (get_prop args ''projectPath'') w
      else if name = Some (JStr ''generate_unit_tests'') then
        this_generateUnitTests this (get_prop args ''filePath'')
          (get_prop args ''functionName'') (get_prop args ''testFramework'') w
      else if name = Some (JStr ''run_tests'') then
        this_runTests this (get_prop args ''projectPath'')
          (get_prop args ''testPattern'') (get_prop args ''framework'') w
      else (Rejected (thrown_message ''Unknown tool: '' name), w))"

text \<open>
  The body of the \<open>try\<close> in the \<open>end\<close> callback, after \<open>JSON.parse\<close>: the \<open>result\<close>
  (fulfilled), the error thrown (rejected), or a method that never returns.
\<close>

definition rpc_method :: "'w methods \<Rightarrow> json \<Rightarrow> 'w \<Rightarrow> json promise \<times> 'w" where
  "rpc_method this request w =
     (if request = JNull then (Rejected null_request_error, w)
      else
        (let method = get_prop request ''method'' in
         if method = Some (JStr ''initialize'') then
           (Fulfilled
              (JObj [(''protocolVersion'', JStr ''2024-11-05''),
                     (''capabilities'', JObj [(''tools'', JObj [])]),
                     (''serverInfo'',
                      JObj [(''name'', JStr ''ai-testing-mcp''), (''version'', JStr ''1.0.0'')])]),
            w)
         else if method = Some (JStr ''tools/list'') then
           (Fulfilled (JObj [(''tools'', JArr http_tools)]), w)
         else if method = Some (JStr ''tools/call'') then
           (let params = get_prop request ''params'' in
            if params = None \<or> params = Some JNull then (Rejected (destructure_error params), w)
            else
              (let name = get_prop (the params) ''name'';
                   args = get_prop (the params) ''arguments''
               in if \<not> truthy args then (Rejected ''Missing arguments'', w)
                  else http_switch this name (the args) w))
         else if method = Some (JStr ''ping'') then (Fulfilled (JObj []), w)
         else if method = Some (JStr ''initialized'') then (Fulfilled (JObj []), w)
         else (Rejected (thrown_message ''Unsupported method: '' method), w)))"

text \<open>
  The \<open>end\<close> callback on the collected body: the response written, or none while a
  method never returns.
\<close>

definition rpc_end :: "node_env \<Rightarrow> 'w methods \<Rightarrow> string \<Rightarrow> 'w \<Rightarrow> http_response option \<times> 'w" where
  "rpc_end E this content w =
     (case JSON_parse E content of
        Inl msg \<Rightarrow> (Some (json_response 500 (rpc_error msg)), w)
      | Inr request \<Rightarrow>
          (case rpc_method this request w of
             (Fulfilled result, w') \<Rightarrow> (Some (json_response 200 (rpc_result request result)), w')
           | (Rejected msg, w') \<Rightarrow> (Some (json_response 500 (rpc_error msg)), w')
           | (Pending, w') \<Rightarrow> (None, w')))"

definition url_includes_mcp :: "string option \<Rightarrow> bool" where
  "url_includes_mcp url = (case url of None \<Rightarrow> False | Some u \<Rightarrow> str_includes u ''mcp'')"

definition status_document :: json where
  "status_document =
     JObj [(''name'', JStr ''AI Testing MCP Server''),
           (''version'', JStr ''1.0.0''),
           (''status'', JStr ''running''),
           (''authentication'', JStr ''required''),
           (''protocol'', JStr ''MCP over HTTP''),
           (''endpoints'',
            JObj [(''mcp'', JStr ''POST / (requires API key)''),
                  (''auth'', JStr ''POST /auth''),
                  (''health'', JStr ''GET /'')]),
           (''usage'',
            JObj [(''authentication'',
                   JStr ''Include \"Authorization: Bearer <your-api-key>\" header''),
                  (''example'',
                   JStr ''curl -H \"Authorization: Bearer your-key\" -X POST -d '{\"method\":\"tools/list\"}' /'')])]"

text \<open>
  The request listener that \<open>runHTTP\<close> installs. \<open>MCP_API_KEY\<close> is the value of the
  environment variable, \<open>None\<close> when it is not set. The bearer-token check of the MCP
  branch is commented out in the source and so is absent here.
\<close>

definition runHTTP ::
  "node_env \<Rightarrow> string option \<Rightarrow> 'w methods \<Rightarrow> http_request \<Rightarrow> 'w \<Rightarrow> http_response option \<times> 'w" where
  "runHTTP E MCP_API_KEY this req w =
     (if req_method req = Some ''OPTIONS'' then
        (Some \<lparr>status = 200, headers = cors_headers, body = []\<rparr>, w)
      else if req_method req = Some ''POST'' \<and>
              (req_url req = Some ''/mcp'' \<or> req_url req = Some ''/'' \<or>
               url_includes_mcp (req_url req)) then
        rpc_end E this (req_body req) w
      else if req_method req = Some ''GET'' then
        (if url_includes_mcp (req_url req) \<or> req_url req = Some ''/''
         then (Some (json_response 200 status_document), w)
         else (Some (json_response 404 (JObj [(''error'', JStr ''Not found'')])), w))
      else if req_method req = Some ''POST'' \<and> req_url req = Some ''/auth'' then
        (if authenticateRequest MCP_API_KEY req
         then (Some (json_response 200
                  (JObj [(''authenticated'', JBool True),
                         (''message'', JStr ''API key is valid'')])), w)
         else (Some (json_response 401
                  (JObj [(''authenticated'', JBool False),
                         (''message'', JStr ''Invalid or missing API key'')])), w))
      else (Some (json_response 404 (JObj [(''error'', JStr ''Not found'')])), w))"

text \<open>Requests for running the listener, with the parse of their bodies.\<close>

definition rpc_env :: node_env where
  "rpc_env = empty_env\<lparr>JSON_parse :=
     (\<lambda>s. if s = ''{\"jsonrpc\":\"2.0\",\"method\":\"tools/list\",\"id\":1}''
             then Inr (JObj [(''jsonrpc'', JStr ''2.0''), (''method'', JStr ''tools/list''),
                             (''id'', JNum ''1'')])
           else if s = ''{\"jsonrpc\":\"2.0\",\"method\":\"tools/call\",\"params\":{\"name\":\"bogus\",\"arguments\":{}},\"id\":2}''
             then Inr (JObj [(''jsonrpc'', JStr ''2.0''), (''method'', JStr ''tools/call''),
                             (''params'', JObj [(''name'', JStr ''bogus''),
                                                (''arguments'', JObj [])]),
                             (''id'', JNum ''2'')])
           else if s = ''{\"jsonrpc\":\"2.0\",\"method\":\"tools/call\",\"params\":{\"name\":\"run_tests\"},\"id\":3}''
             then Inr (JObj [(''jsonrpc'', JStr ''2.0''), (''method'', JStr ''tools/call''),
                             (''params'', JObj [(''name'', JStr ''run_tests'')]),
                             (''id'', JNum ''3'')])
           else if s = ''{\"jsonrpc\":\"2.0\",\"method\":\"tools/call\",\"params\":{\"name\":\"run_tests\",\"arguments\":{\"projectPath\":\"proj\"}},\"id\":4}''
             then Inr (JObj [(''jsonrpc'', JStr ''2.0''), (''method'', JStr ''tools/call''),
                             (''params'', JObj [(''name'', JStr ''run_tests''),
                                                (''arguments'',
                                                 JObj [(''projectPath'', JStr ''proj'')])]),
                             (''id'', JNum ''4'')])
           else if s = ''{\"jsonrpc\":\"2.0\",\"method\":\"tools/call\",\"id\":5}''
             then Inr (JObj [(''jsonrpc'', JStr ''2.0''), (''method'', JStr ''tools/call''),
                             (''id'', JNum ''5'')])
           else if s = ''{\"jsonrpc\":\"2.0\",\"method\":\"ping\",\"id\":0}''
             then Inr (JObj [(''jsonrpc'', JStr ''2.0''), (''method'', JStr ''ping''),
                             (''id'', JNum ''0'')])
           else Inl ''Unexpected end of JSON input'')\<rparr>"

definition post :: "string \<Rightarrow> string \<Rightarrow> http_request" where
  "post url content =
     \<lparr>req_method = Some ''POST'', req_url = Some url, req_authorization = None,
      req_body = content\<rparr>"

text \<open>The condition under which the listener takes the MCP branch.\<close>

definition mcp_post :: "http_request \<Rightarrow> bool" where
  "mcp_post req =
     (req_method req = Some ''POST'' \<and>
      (req_url req = Some ''/mcp'' \<or> req_url req = Some ''/'' \<or>
       url_includes_mcp (req_url req)))"

text \<open>
  The API key as the claim about \<open>authenticateRequest\<close> describes it (the value of
  \<open>MCP_API_KEY\<close>, or the default when it is not set), and as
  \<open>process.env.MCP_API_KEY || 'default-dev-key'\<close> computes it (the default also for
  the empty value).
\<close>

definition claimed_key :: "string option \<Rightarrow> string" where
  "claimed_key MCP_API_KEY =
     (case MCP_API_KEY of None \<Rightarrow> ''default-dev-key'' | Some k \<Rightarrow> k)"

definition effective_key :: "string option \<Rightarrow> string" where
  "effective_key MCP_API_KEY =
     (case MCP_API_KEY of
        None \<Rightarrow> ''default-dev-key''
      | Some k \<Rightarrow> if k = [] then ''default-dev-key'' else k)"

definition bearer_token :: "string \<Rightarrow> string" where
  "bearer_token h = (if startsWith h ''Bearer '' then drop 7 h else h)"

text \<open>
  An HTTP POST to the MCP endpoint whose body parses to a \<open>tools/call\<close> request, and
  the \<open>arguments\<close> such a request carries: those of its \<open>params\<close>, none when it has
  no \<open>params\<close>.
\<close>

definition tools_call :: "node_env \<Rightarrow> http_request \<Rightarrow> json \<Rightarrow> bool" where
  "tools_call E req request =
     (mcp_post req \<and> JSON_parse E (req_body req) = Inr request \<and>
      get_prop request ''method'' = Some (JStr ''tools/call''))"



definition os_warn :: os where
  "os_warn =
     \<lparr>runs = (\<lambda>command cwd timeout.
         Inr \<lparr>ended = Exit 0, run_stdout = ''1 passed'',
              run_stderr = ''deprecation warning'', run_error = [],
              left_running = False\<rparr>),
      spawned = []\<rparr>"

definition os_clean :: os where
  "os_clean =
     \<lparr>runs = (\<lambda>command cwd timeout.
         Inr \<lparr>ended = Exit 0, run_stdout = ''1 passed'', run_stderr = [],
              run_error = [], left_running = False\<rparr>),
      spawned = []\<rparr>"

definition flood :: string where
  "flood = replicate (1024 * 1024 + 1) (CHR ''a'')"

definition os_flood :: os where
  "os_flood =
     \<lparr>runs = (\<lambda>command cwd timeout.
         Inr \<lparr>ended = Exit 0, run_stdout = flood, run_stderr = [],
              run_error = ''stdout maxBuffer length exceeded'', left_running = False\<rparr>),
      spawned = []\<rparr>"


section \<open>Verified properties\<close>

subsection \<open>The file-system walker\<close>

lemma chain_path_Nil: "chain_path E dir [] = dir"
  by (simp add: chain_path_def)

lemma chain_path_Cons: "chain_path E dir (item # c) = chain_path E (path_join E dir item) c"
  by (simp add: chain_path_def)

lemma file_chains_nonempty:
  "isDirectory n \<Longrightarrow> [] \<notin> set (file_chains n)"
  "[] \<notin> set (file_chains_items items)"
  by (induction n and items rule: file_chains_file_chains_items.induct) auto

lemma listed_file_Cons:
  "c \<noteq> [] \<Longrightarrow> listed_file (item # c) = (\<not> excluded_dir item \<and> listed_file c)"
  by (simp add: listed_file_def)

lemma listed_file_single: "listed_file [item]"
  by (simp add: listed_file_def)

lemma filter_listed_excluded:
  "[] \<notin> set cs \<Longrightarrow> excluded_dir item \<Longrightarrow> filter listed_file (map ((#) item) cs) = []"
  by (induction cs) (auto simp: listed_file_Cons)

lemma filter_listed_kept:
  "[] \<notin> set cs \<Longrightarrow> \<not> excluded_dir item \<Longrightarrow>
   filter listed_file (map ((#) item) cs) = map ((#) item) (filter listed_file cs)"
  by (induction cs) (auto simp: listed_file_Cons)

lemma excluded_dir_iff:
  "excluded_dir item = (startsWith item ''.'' \<or> item = ''node_modules'')"
  by (simp add: excluded_dir_def hidden_def)

text \<open>
  The walk returns exactly when it meets no error, and then it has appended the listed
  files of the tree, in listing order, to the array it was given.
\<close>

lemma getAllFiles_appends:
  "getAllFiles E dir t files = Inr r \<longleftrightarrow>
     walkable t \<and> r = files @ map (chain_path E dir) (filter listed_file (file_chains t))"
  "getAllFiles_items E dir items files = Inr r \<longleftrightarrow>
     walkable_items items \<and>
     r = files @ map (chain_path E dir) (filter listed_file (file_chains_items items))"
proof (induction t and items arbitrary: dir files r and dir files r
    rule: file_chains_file_chains_items.induct)
  case (7 item n rest)
  let ?x = "path_join E dir item"
  note sub = "7.IH"(1)[of ?x files]
  note rest = "7.IH"(2)[of dir]
  show ?case
  proof (cases n)
    case File
    then show ?thesis using rest[of "files @ [?x]" r]
      by (auto simp: listed_file_single chain_path_Cons chain_path_Nil Let_def)
  next
    case (Dir sub_items)
    have ne: "[] \<notin> set (file_chains n)"
      using Dir by (simp add: file_chains_nonempty(2))
    show ?thesis
    proof (cases "excluded_dir item")
      case True
      then show ?thesis using Dir rest[of files r] ne
        by (auto simp: excluded_dir_iff Let_def filter_listed_excluded)
    next
      case False
      show ?thesis
      proof (cases "getAllFiles E ?x n files")
        case (Inl msg)
        then show ?thesis using Dir False sub
          by (auto simp: excluded_dir_iff Let_def)
      next
        case (Inr files')
        then have w: "walkable n"
          and f: "files' = files @ map (chain_path E ?x) (filter listed_file (file_chains n))"
          using sub[of files'] by auto
        show ?thesis using Dir False Inr w f rest[of files' r] ne
          by (auto simp: excluded_dir_iff Let_def filter_listed_kept chain_path_Cons o_def)
      qed
    qed
  next
    case (NoList msg)
    then show ?thesis using rest[of files r]
      by (auto simp: excluded_dir_iff Let_def)
  next
    case Other
    then show ?thesis using rest[of files r]
      by (auto simp: Let_def)
  next
    case (Failing msg)
    then show ?thesis by simp
  qed
qed auto

text \<open>
  C7, as the code has it. For every directory tree, \<open>getAllFiles\<close> called on the root
  with an empty array returns exactly when the walk meets no error, and what it returns
  is exactly the regular files of the tree that no hidden (dot-named) directory and no
  \<open>node_modules\<close> directory below the root lies above, in listing order. The name of a
  file itself is not tested: a hidden regular file in a walked directory is returned.
\<close>

theorem getAllFiles_returns_listed_files:
  "getAllFiles E dir t [] = Inr r \<longleftrightarrow>
     walkable t \<and> r = map (chain_path E dir) (filter listed_file (file_chains t))"
  using getAllFiles_appends(1)[of E dir t "[]" r] by simp

theorem getAllFiles_returns_listed_files_witness:
  "walkable (Dir [(''.env'', File), (''src'', Dir [(''a.ts'', File), (''.cache'', Dir [(''x'', File)])]),
                  (''node_modules'', Dir [(''m.js'', File)])]) \<and>
   getAllFiles empty_env ''proj''
     (Dir [(''.env'', File), (''src'', Dir [(''a.ts'', File), (''.cache'', Dir [(''x'', File)])]),
           (''node_modules'', Dir [(''m.js'', File)])]) []
     = Inr [''proj/.env'', ''proj/src/a.ts'']"
  using getAllFiles_returns_listed_files[of empty_env "''proj''"
      "Dir [(''.env'', File), (''src'', Dir [(''a.ts'', File), (''.cache'', Dir [(''x'', File)])]),
            (''node_modules'', Dir [(''m.js'', File)])]"
      "[''proj/.env'', ''proj/src/a.ts'']"]
  by (simp add: excluded_dir_def hidden_def startsWith_def listed_file_def chain_path_def
      empty_env_def)

text \<open>
  C7, as the claim states it, fails: a hidden regular file directly under the root is
  returned, while the claim's description of the result leaves it out.
\<close>

theorem getAllFiles_hidden_file_counterexample:
  "getAllFiles empty_env ''proj'' (Dir [(''.env'', File)]) [] = Inr [''proj/.env''] \<and>
   hidden ''.env'' \<and>
   map (chain_path empty_env ''proj'') (filter claimed_file (file_chains (Dir [(''.env'', File)]))) = []"
  by (simp add: hidden_def startsWith_def claimed_file_def empty_env_def)

subsection \<open>The classification of files\<close>

lemma isSourceFile_not_test: "isSourceFile E file \<Longrightarrow> \<not> isTestFile file"
  by (simp add: isSourceFile_def Let_def)

lemma scan_files_lists:
  "scan_files E files a = Inr a' \<Longrightarrow>
     testableComponents a' = testableComponents a @ filter (isSourceFile E) files \<and>
     existingTests a' = existingTests a @ filter isTestFile files"
proof (induction files arbitrary: a)
  case Nil
  then show ?case by simp
next
  case (Cons f fs)
  from Cons.prems obtain content where rd: "fs_readFile E f = Inr content"
    by (cases "fs_readFile E f") (auto simp: Let_def)
  show ?case
    using Cons.prems rd Cons.IH
    by (auto simp: Let_def split: if_splits)
qed

lemma analyze_package_lists:
  "testableComponents (analyze_package E p a) = testableComponents a"
  "existingTests (analyze_package E p a) = existingTests a"
  by (auto simp: analyze_package_def assign_def Let_def split: option.splits)

lemma analyze_requirements_lists:
  "testableComponents (analyze_requirements E p a) = testableComponents a"
  "existingTests (analyze_requirements E p a) = existingTests a"
  by (auto simp: analyze_requirements_def assign_def)

lemma analyze_lists:
  assumes "analyze E projectPath = Inr a"
  shows "\<exists>files. project_files E projectPath = Inr files \<and>
           testableComponents a = filter (isSourceFile E) files \<and>
           existingTests a = filter isTestFile files"
proof -
  from assms obtain files where pf: "project_files E projectPath = Inr files"
    by (cases "project_files E projectPath") (auto simp: analyze_def Let_def)
  with assms have
    "scan_files E files
       (analyze_requirements E projectPath
         (analyze_package E projectPath
           \<lparr>language = [], apiEndpoints = [], testableComponents = [],
            existingTests = [], assigned = []\<rparr>)) = Inr a"
    by (simp add: analyze_def Let_def)
  from scan_files_lists[OF this] pf show ?thesis
    by (simp add: analyze_package_lists analyze_requirements_lists)
qed

text \<open>
  C10. For every project that \<open>analyze_codebase\<close> analyses (the analysis \<open>a\<close> is what
  the handler serialises into its text payload), the lists \<open>testableComponents\<close> and
  \<open>existingTests\<close> are disjoint: no path is in both, because \<open>isSourceFile\<close> is false
  on every file on which \<open>isTestFile\<close> is true.
\<close>

theorem analyzeCodebase_lists_disjoint:
  assumes "analyze E projectPath = Inr a"
  shows "analyzeCodebase E projectPath
           = Fulfilled (text_result (JSON_stringify2 (analysis_json a))) \<and>
         set (testableComponents a) \<inter> set (existingTests a) = {} \<and>
         (isTestFile file \<longrightarrow> \<not> isSourceFile E file)"
proof -
  from analyze_lists[OF assms] obtain files where
    "testableComponents a = filter (isSourceFile E) files"
    "existingTests a = filter isTestFile files"
    by blast
  then have "set (testableComponents a) \<inter> set (existingTests a) = {}"
    by (auto dest: isSourceFile_not_test)
  with assms show ?thesis
    by (auto simp: analyzeCodebase_def dest: isSourceFile_not_test)
qed

lemma analyze_demo:
  "analyze demo (Some (JStr ''proj''))
     = Inr \<lparr>language = ''javascript'', apiEndpoints = [],
            testableComponents = [''proj/src/app.ts''],
            existingTests = [''proj/src/app.test.ts''],
            assigned = [(''testFramework'', ''jest'')]\<rparr>"
  by code_simp

theorem analyzeCodebase_lists_disjoint_witness:
  "analyze demo (Some (JStr ''proj''))
     = Inr \<lparr>language = ''javascript'', apiEndpoints = [],
            testableComponents = [''proj/src/app.ts''],
            existingTests = [''proj/src/app.test.ts''],
            assigned = [(''testFramework'', ''jest'')]\<rparr> \<and>
   set [''proj/src/app.ts''] \<inter> set [''proj/src/app.test.ts''] = {} \<and>
   isTestFile ''proj/src/app.test.ts'' \<and>
   \<not> isSourceFile demo ''proj/src/app.test.ts''"
proof -
  have t: "isTestFile ''proj/src/app.test.ts''"
    by code_simp
  from analyzeCodebase_lists_disjoint[OF analyze_demo, of "''proj/src/app.test.ts''"] t
  show ?thesis
    using analyze_demo by simp
qed

subsection \<open>The HTTP listener: routing\<close>

lemma runHTTP_mcp_post:
  "mcp_post req \<Longrightarrow> runHTTP E key this req w = rpc_end E this (req_body req) w"
  by (simp add: runHTTP_def mcp_post_def)

lemma mcp_post_example: "mcp_post (post ''/mcp'' content)"
  by (simp add: mcp_post_def post_def)

text \<open>
  C8. For every HTTP \<open>OPTIONS\<close> request, whatever its path, headers and body, the
  listener answers with status 200, an empty body and the CORS headers; the answer
  depends neither on the parser nor on the tool methods, and the world is unchanged,
  so no body is parsed and nothing is dispatched.
\<close>

theorem options_short_circuit:
  assumes "req_method req = Some ''OPTIONS''"
  shows "runHTTP E key this req w
           = (Some \<lparr>status = 200, headers = cors_headers, body = []\<rparr>, w)"
  using assms by (simp add: runHTTP_def)

theorem options_short_circuit_witness:
  "runHTTP rpc_env None counting
     \<lparr>req_method = Some ''OPTIONS'', req_url = Some ''/any/path'',
      req_authorization = None, req_body = ''not json''\<rparr> 0
   = (Some \<lparr>status = 200,
            headers = [(''Access-Control-Allow-Origin'', ''*''),
                       (''Access-Control-Allow-Methods'', ''GET, POST, OPTIONS''),
                       (''Access-Control-Allow-Headers'',
                        ''Content-Type, Authorization, X-API-Key'')],
            body = []\<rparr>, 0)"
  using options_short_circuit[of
      "\<lparr>req_method = Some ''OPTIONS'', req_url = Some ''/any/path'',
        req_authorization = None, req_body = ''not json''\<rparr>" rpc_env None counting 0]
  by (simp add: cors_headers_def)

subsection \<open>Authentication\<close>

text \<open>
  C6, as the code has it. \<open>authenticateRequest\<close> returns false when the
  \<open>Authorization\<close> header is absent, and otherwise returns true exactly when the
  header value, with a leading \<open>Bearer \<close> stripped if present, equals the API key: the
  value of \<open>MCP_API_KEY\<close>, or \<open>default-dev-key\<close> when the variable is unset or empty.
  The gate on the MCP branch is disabled: every POST to the MCP endpoint is handed to
  the dispatching callback, with the same answer whatever the header and the key are.
\<close>

theorem authenticateRequest_checks_effective_key:
  "authenticateRequest key req
     = (case req_authorization req of
          None \<Rightarrow> False
        | Some h \<Rightarrow> bearer_token h = effective_key key) \<and>
   (mcp_post req \<longrightarrow>
      runHTTP E key this req w = rpc_end E this (req_body req) w \<and>
      runHTTP E key' this (req\<lparr>req_authorization := a\<rparr>) w = runHTTP E key this req w)"
proof -
  have "authenticateRequest key req
     = (case req_authorization req of
          None \<Rightarrow> False
        | Some h \<Rightarrow> bearer_token h = effective_key key)"
    by (auto simp: authenticateRequest_def effective_key_def bearer_token_def Let_def
        startsWith_def split: option.splits)
  moreover have "mcp_post req \<Longrightarrow> mcp_post (req\<lparr>req_authorization := a\<rparr>)"
    by (simp add: mcp_post_def)
  ultimately show ?thesis
    by (auto simp: runHTTP_mcp_post)
qed

theorem authenticateRequest_checks_effective_key_witness:
  "authenticateRequest (Some ''s3cret'')
     ((post ''/auth'' [])\<lparr>req_authorization := Some ''Bearer s3cret''\<rparr>)
   \<and> \<not> authenticateRequest (Some ''s3cret'') (post ''/auth'' [])
   \<and> mcp_post (post ''/mcp'' ''{\"jsonrpc\":\"2.0\",\"method\":\"ping\",\"id\":0}'')
   \<and> runHTTP rpc_env (Some ''s3cret'') counting
        ((post ''/mcp'' ''{\"jsonrpc\":\"2.0\",\"method\":\"ping\",\"id\":0}'')
           \<lparr>req_authorization := Some ''wrong''\<rparr>) 0
      = runHTTP rpc_env None counting
          (post ''/mcp'' ''{\"jsonrpc\":\"2.0\",\"method\":\"ping\",\"id\":0}'') 0"
proof -
  let ?ping = "post ''/mcp'' ''{\"jsonrpc\":\"2.0\",\"method\":\"ping\",\"id\":0}''"
  have m: "mcp_post ?ping"
    by (rule mcp_post_example)
  have 1: "authenticateRequest (Some ''s3cret'')
     ((post ''/auth'' [])\<lparr>req_authorization := Some ''Bearer s3cret''\<rparr>)"
    using authenticateRequest_checks_effective_key[THEN conjunct1, of "Some ''s3cret''"
      "(post ''/auth'' [])\<lparr>req_authorization := Some ''Bearer s3cret''\<rparr>"]
    by (simp add: post_def bearer_token_def effective_key_def startsWith_def)
  have 2: "\<not> authenticateRequest (Some ''s3cret'') (post ''/auth'' [])"
    using authenticateRequest_checks_effective_key[THEN conjunct1, of "Some ''s3cret''"
      "post ''/auth'' []"]
    by (simp add: post_def)
  have 3: "runHTTP rpc_env (Some ''s3cret'') counting
             (?ping\<lparr>req_authorization := Some ''wrong''\<rparr>) 0
           = runHTTP rpc_env None counting ?ping 0"
    using authenticateRequest_checks_effective_key[of None ?ping
        rpc_env counting 0 "Some ''s3cret''" "Some ''wrong''"] m
    by blast
  from 1 2 3 m show ?thesis by blast
qed

text \<open>
  C6, as the claim states it, fails when \<open>MCP_API_KEY\<close> is set to the empty string:
  the header \<open>default-dev-key\<close> does not equal the configured value, and the check
  returns true, because the code falls back to the default key.
\<close>

theorem authenticateRequest_default_key_counterexample:
  "bearer_token ''default-dev-key'' \<noteq> claimed_key (Some []) \<and>
   authenticateRequest (Some [])
     \<lparr>req_method = Some ''POST'', req_url = Some ''/auth'',
      req_authorization = Some ''default-dev-key'', req_body = []\<rparr>"
  by (simp add: bearer_token_def claimed_key_def authenticateRequest_def startsWith_def)

subsection \<open>Dispatch without a method call\<close>

lemma stdio_tool_names:
  "tool_names stdio_tools =
     [Some (JStr ''analyze_codebase''), Some (JStr ''generate_unit_tests''),
      Some (JStr ''generate_integration_tests''), Some (JStr ''run_tests''),
      Some (JStr ''analyze_test_results''), Some (JStr ''suggest_fixes''),
      Some (JStr ''setup_testing_framework'')]"
  by (simp add: tool_names_def stdio_tools_def descriptor_def)


lemma tools_call_request_not_null: "tools_call E req request \<Longrightarrow> request \<noteq> JNull"
  by (auto simp: tools_call_def)

lemma rpc_method_tools_call:
  assumes "tools_call E req request"
  shows "rpc_method this request w =
           (let params = get_prop request ''params'' in
            if params = None \<or> params = Some JNull then (Rejected (destructure_error params), w)
            else
              (let name = get_prop (the params) ''name'';
                   args = get_prop (the params) ''arguments''
               in if \<not> truthy args then (Rejected ''Missing arguments'', w)
                  else http_switch this name (the args) w))"
  using assms tools_call_request_not_null[OF assms]
  by (simp add: rpc_method_def tools_call_def Let_def)

lemma runHTTP_tools_call:
  assumes "tools_call E req request"
  shows "runHTTP E key this req w =
           (case rpc_method this request w of
              (Fulfilled result, w') \<Rightarrow>
                (Some (json_response 200 (rpc_result request result)), w')
            | (Rejected msg, w') \<Rightarrow> (Some (json_response 500 (rpc_error msg)), w')
            | (Pending, w') \<Rightarrow> (None, w'))"
  using assms by (simp add: runHTTP_mcp_post tools_call_def rpc_end_def)








lemma tools_call_bogus:
  "tools_call rpc_env
     (post ''/mcp'' ''{\"jsonrpc\":\"2.0\",\"method\":\"tools/call\",\"params\":{\"name\":\"bogus\",\"arguments\":{}},\"id\":2}'')
     (JObj [(''jsonrpc'', JStr ''2.0''), (''method'', JStr ''tools/call''),
            (''params'', JObj [(''name'', JStr ''bogus''), (''arguments'', JObj [])]),
            (''id'', JNum ''2'')])"
  by (simp add: tools_call_def mcp_post_def post_def rpc_env_def empty_env_def)








subsection \<open>Discovery\<close>

lemma tools_list_request_not_null:
  "get_prop request ''method'' = Some (JStr ''tools/list'') \<Longrightarrow> request \<noteq> JNull"
  by auto

text \<open>
  C3, as the code has it. Each adapter answers a discovery request with a fixed
  sequence of descriptors, the same at every call and in every state, and leaves the
  world unchanged. The standard-stream list has exactly 7 descriptors with distinct
  names. The HTTP list has exactly 3: the descriptors that the standard-stream list
  has at positions 0, 1 and 3 (\<open>analyze_codebase\<close>, \<open>generate_unit_tests\<close>,
  \<open>run_tests\<close>), in that order.
\<close>

theorem discovery_lists_fixed:
  "listTools w = (Fulfilled (JObj [(''tools'', JArr stdio_tools)]), w) \<and>
   fst (listTools w) = fst (listTools w') \<and>
   length stdio_tools = 7 \<and> distinct (tool_names stdio_tools) \<and>
   (mcp_post req \<and> JSON_parse E (req_body req) = Inr request \<and>
    get_prop request ''method'' = Some (JStr ''tools/list'') \<longrightarrow>
      runHTTP E key this req w
        = (Some (json_response 200
                   (rpc_result request (JObj [(''tools'', JArr http_tools)]))), w)) \<and>
   length http_tools = 3 \<and>
   http_tools = [stdio_tools ! 0, stdio_tools ! 1, stdio_tools ! 3]"
proof (intro conjI impI)
  show "listTools w = (Fulfilled (JObj [(''tools'', JArr stdio_tools)]), w)"
    by (simp add: listTools_def)
  show "fst (listTools w) = fst (listTools w')"
    by (simp add: listTools_def)
  show "length stdio_tools = 7"
    by (simp add: stdio_tools_def)
  show "distinct (tool_names stdio_tools)"
    by (simp add: stdio_tool_names)
  show "length http_tools = 3"
    by (simp add: http_tools_def)
  show "http_tools = [stdio_tools ! 0, stdio_tools ! 1, stdio_tools ! 3]"
    by (simp add: http_tools_def stdio_tools_def)
next
  assume h: "mcp_post req \<and> JSON_parse E (req_body req) = Inr request \<and>
             get_prop request ''method'' = Some (JStr ''tools/list'')"
  then have "request \<noteq> JNull"
    by (simp add: tools_list_request_not_null)
  with h show "runHTTP E key this req w
        = (Some (json_response 200
                   (rpc_result request (JObj [(''tools'', JArr http_tools)]))), w)"
    by (simp add: runHTTP_mcp_post rpc_end_def rpc_method_def)
qed

theorem discovery_lists_fixed_witness:
  "mcp_post (post ''/mcp'' ''{\"jsonrpc\":\"2.0\",\"method\":\"tools/list\",\"id\":1}'') \<and>
   runHTTP rpc_env None counting
     (post ''/mcp'' ''{\"jsonrpc\":\"2.0\",\"method\":\"tools/list\",\"id\":1}'') 5
   = (Some (json_response 200
        (JObj [(''jsonrpc'', JStr ''2.0''),
               (''result'', JObj [(''tools'', JArr http_tools)]),
               (''id'', JNum ''1'')])), 5)"
proof -
  let ?body = "''{\"jsonrpc\":\"2.0\",\"method\":\"tools/list\",\"id\":1}''"
  let ?request = "JObj [(''jsonrpc'', JStr ''2.0''), (''method'', JStr ''tools/list''),
                        (''id'', JNum ''1'')]"
  have m: "mcp_post (post ''/mcp'' ?body)"
    by (rule mcp_post_example)
  have p: "JSON_parse rpc_env (req_body (post ''/mcp'' ?body)) = Inr ?request"
    by (simp add: post_def rpc_env_def empty_env_def)
  have "runHTTP rpc_env None counting (post ''/mcp'' ?body) 5
        = (Some (json_response 200
                   (rpc_result ?request (JObj [(''tools'', JArr http_tools)]))), 5)"
    using discovery_lists_fixed[of 5 "0::nat" "post ''/mcp'' ?body" rpc_env ?request None counting]
      m p by simp
  then show ?thesis using m by (simp add: rpc_result_def)
qed

text \<open>
  C3, as the claim states it, fails: the list the HTTP adapter serves for the scenario
  request has 3 descriptors, not 7, and is not the list the standard-stream adapter
  serves.
\<close>

theorem http_tools_list_counterexample:
  "runHTTP rpc_env None counting
     (post ''/mcp'' ''{\"jsonrpc\":\"2.0\",\"method\":\"tools/list\",\"id\":1}'') 0
   = (Some (json_response 200
        (JObj [(''jsonrpc'', JStr ''2.0''),
               (''result'', JObj [(''tools'', JArr http_tools)]),
               (''id'', JNum ''1'')])), 0) \<and>
   listTools (0::nat) = (Fulfilled (JObj [(''tools'', JArr stdio_tools)]), 0) \<and>
   length http_tools = 3 \<and> length stdio_tools = 7 \<and> http_tools \<noteq> stdio_tools"
proof -
  have "length http_tools \<noteq> length stdio_tools"
    by (simp add: http_tools_def stdio_tools_def)
  then have "http_tools \<noteq> stdio_tools"
    by auto
  then show ?thesis
    by (simp add: runHTTP_def post_def rpc_end_def rpc_env_def empty_env_def rpc_method_def
        rpc_result_def listTools_def)
      (simp add: http_tools_def stdio_tools_def)
qed

subsection \<open>The id of an HTTP response\<close>

text \<open>
  On the success path the envelope carries \<open>request.id || null\<close>: the id of the request
  when it is truthy, \<open>null\<close> otherwise. On the error path it carries \<open>null\<close>.
\<close>

lemma rpc_result_id:
  "get_prop (rpc_result request result) ''id''
     = Some (if truthy (get_prop request ''id'') then the (get_prop request ''id'') else JNull)"
  by (simp add: rpc_result_def Let_def)

lemma rpc_error_id: "get_prop (rpc_error message) ''id'' = Some JNull"
  by (simp add: rpc_error_def)

text \<open>
  C4 at the scenario request of the specification: the POST
  \<open>{"jsonrpc":"2.0","method":"tools/call","params":{"name":"bogus","arguments":{}},"id":2}\<close>
  carries the id 2, and the error response of the listener carries the id \<open>null\<close>.
\<close>

theorem http_error_response_drops_id:
  "JSON_parse rpc_env ''{\"jsonrpc\":\"2.0\",\"method\":\"tools/call\",\"params\":{\"name\":\"bogus\",\"arguments\":{}},\"id\":2}''
     = Inr (JObj [(''jsonrpc'', JStr ''2.0''), (''method'', JStr ''tools/call''),
                  (''params'', JObj [(''name'', JStr ''bogus''), (''arguments'', JObj [])]),
                  (''id'', JNum ''2'')]) \<and>
   runHTTP rpc_env None counting
     (post ''/mcp'' ''{\"jsonrpc\":\"2.0\",\"method\":\"tools/call\",\"params\":{\"name\":\"bogus\",\"arguments\":{}},\"id\":2}'') 0
   = (Some (json_response 500
        (JObj [(''jsonrpc'', JStr ''2.0''),
               (''error'', JObj [(''code'', JNum ''-32000''),
                                 (''message'', JStr ''Unknown tool: bogus'')]),
               (''id'', JNull)])), 0) \<and>
   body (json_response 500
        (JObj [(''jsonrpc'', JStr ''2.0''),
               (''error'', JObj [(''code'', JNum ''-32000''),
                                 (''message'', JStr ''Unknown tool: bogus'')]),
               (''id'', JNull)]))
   = ''{\"jsonrpc\":\"2.0\",\"error\":{\"code\":-32000,\"message\":\"Unknown tool: bogus\"},\"id\":null}''"
proof -
  have "runHTTP rpc_env None counting
     (post ''/mcp'' ''{\"jsonrpc\":\"2.0\",\"method\":\"tools/call\",\"params\":{\"name\":\"bogus\",\"arguments\":{}},\"id\":2}'') 0
     = (Some (json_response 500 (rpc_error ''Unknown tool: bogus'')), 0)"
    using tools_call_bogus
    by (simp add: runHTTP_tools_call rpc_method_tools_call http_switch_def
        thrown_message_def template_def)
  moreover have "body (json_response 500 (rpc_error ''Unknown tool: bogus''))
    = ''{\"jsonrpc\":\"2.0\",\"error\":{\"code\":-32000,\"message\":\"Unknown tool: bogus\"},\"id\":null}''"
    by (simp add: json_response_def rpc_error_def JSON_stringify_def quote_def quote_char_def)
  ultimately show ?thesis
    by (simp add: rpc_error_def rpc_env_def empty_env_def)
qed

text \<open>
  The same loss on the success path for an id that is falsy: the request
  \<open>{"jsonrpc":"2.0","method":"ping","id":0}\<close> is answered with the id \<open>null\<close>.
\<close>

lemma http_success_response_zero_id:
  "runHTTP rpc_env None counting
     (post ''/mcp'' ''{\"jsonrpc\":\"2.0\",\"method\":\"ping\",\"id\":0}'') 0
   = (Some (json_response 200
        (JObj [(''jsonrpc'', JStr ''2.0''), (''result'', JObj []), (''id'', JNull)])), 0)"
  by (simp add: runHTTP_def post_def rpc_end_def rpc_env_def empty_env_def rpc_method_def
      rpc_result_def)

text \<open>Every error response of the MCP branch carries the id \<open>null\<close>.\<close>

lemma rpc_end_error_id_null:
  assumes "rpc_end E this content w = (Some r, w')" and "status r = 500"
  shows "\<exists>msg. r = json_response 500 (rpc_error msg) \<and>
           get_prop (rpc_error msg) ''id'' = Some JNull"
  using assms
  by (auto simp: rpc_end_def rpc_error_id json_response_def
      split: sum.splits prod.splits promise.splits)

subsection \<open>Running tests\<close>

lemma TestResult_text:
  "JSON_stringify2 (TestResult_json r)
     = ''{'' @ [CHR 0x0A] @ ''  \"success\": '' @ (if success r then ''true'' else ''false'')
       @ '','' @ [CHR 0x0A] @ ''  \"output\": '' @ quote (output' r)
       @ '','' @ [CHR 0x0A] @ ''  \"errors\": '' @ quote (errors r) @ [CHR 0x0A] @ ''}''"
  by (simp add: JSON_stringify2_def TestResult_json_def quote_def quote_char_def)

text \<open>The result of the \<open>catch\<close> block, spelled out.\<close>

lemma failed_run_text:
  "failed_run msg
     = JObj [(''content'',
         JArr [JObj [(''type'', JStr ''text''),
                     (''text'',
                      JStr (''{'' @ [CHR 0x0A] @ ''  \"success\": false,'' @ [CHR 0x0A]
                            @ ''  \"output\": \"\",'' @ [CHR 0x0A]
                            @ ''  \"errors\": '' @ quote msg @ [CHR 0x0A] @ ''}''))]])]"
  by (simp add: failed_run_def text_result_def TestResult_text quote_def)

lemma demo_command:
  "test_command (chosen_framework demo (Some (JStr ''proj'')) None) None
     = Inr ''npx jest --verbose --coverage''"
  by code_simp

lemma runTests_fulfilled:
  assumes "test_command (chosen_framework E projectPath framework) testPattern = Inr command"
    and "exec command projectPath 60000 w = (Fulfilled (out, err), w')"
  shows "runTests E exec projectPath testPattern framework w
           = (Fulfilled
                (JObj [(''content'',
                   JArr [JObj [(''type'', JStr ''text''),
                               (''text'',
                                JStr (''{'' @ [CHR 0x0A] @ ''  \"success\": ''
                                      @ (if err = [] then ''true'' else ''false'')
                                      @ '','' @ [CHR 0x0A] @ ''  \"output\": '' @ quote out
                                      @ '','' @ [CHR 0x0A] @ ''  \"errors\": '' @ quote err
                                      @ [CHR 0x0A] @ ''}''))]])]),
              w')"
  using assms by (simp add: runTests_def Let_def text_result_def TestResult_text)

lemma runTests_rejected:
  assumes "test_command (chosen_framework E projectPath framework) testPattern = Inr command"
    and "exec command projectPath 60000 w = (Rejected msg, w')"
  shows "runTests E exec projectPath testPattern framework w = (Fulfilled (failed_run msg), w')"
  using assms by (simp add: runTests_def Let_def)

text \<open>\<open>runTests\<close> itself never throws, whatever \<open>exec\<close> does.\<close>

lemma runTests_never_rejects:
  "fst (runTests E exec projectPath testPattern framework w) \<noteq> Rejected msg"
  by (auto simp: runTests_def Let_def split: sum.splits prod.splits promise.splits)

lemma node_exec_fulfilled:
  assumes "runs os command cwd timeout = Inr r" and "ended r = Exit 0"
    and "length (run_stdout r) \<le> max_buffer" and "length (run_stderr r) \<le> max_buffer"
  shows "node_exec command cwd timeout os
           = (Fulfilled (run_stdout r, run_stderr r),
              os\<lparr>spawned := spawned os
                     @ [(command, if left_running r then Running else Gone)]\<rparr>)"
  using assms by (simp add: node_exec_def Let_def)


text \<open>
  C9, as the code has it. For every \<open>run_tests\<close> call whose command is run and for
  which the promise of \<open>exec\<close> is fulfilled, the reported result has \<open>success: true\<close>
  if and only if the standard error output is empty; the text of the payload is spelled
  out. The promise is fulfilled when the subprocess completes within the timeout,
  exits with code zero, and neither of its output streams exceeds the buffer of 1 MiB
  that \<open>exec\<close> collects them in.
\<close>

theorem runTests_success_iff_no_stderr:
  assumes "test_command (chosen_framework E projectPath framework) testPattern = Inr command"
  shows "(exec command projectPath 60000 w = (Fulfilled (out, err), w') \<longrightarrow>
            runTests E exec projectPath testPattern framework w
              = (Fulfilled
                   (JObj [(''content'',
                      JArr [JObj [(''type'', JStr ''text''),
                                  (''text'',
                                   JStr (''{'' @ [CHR 0x0A] @ ''  \"success\": ''
                                         @ (if err = [] then ''true'' else ''false'')
                                         @ '','' @ [CHR 0x0A] @ ''  \"output\": '' @ quote out
                                         @ '','' @ [CHR 0x0A] @ ''  \"errors\": '' @ quote err
                                         @ [CHR 0x0A] @ ''}''))]])]),
                 w')) \<and>
         (runs os command projectPath 60000 = Inr r \<and> ended r = Exit 0 \<and>
          length (run_stdout r) \<le> max_buffer \<and> length (run_stderr r) \<le> max_buffer \<longrightarrow>
            fst (runTests E node_exec projectPath testPattern framework os)
              = Fulfilled
                  (JObj [(''content'',
                     JArr [JObj [(''type'', JStr ''text''),
                                 (''text'',
                                  JStr (''{'' @ [CHR 0x0A] @ ''  \"success\": ''
                                        @ (if run_stderr r = [] then ''true'' else ''false'')
                                        @ '','' @ [CHR 0x0A] @ ''  \"output\": ''
                                        @ quote (run_stdout r)
                                        @ '','' @ [CHR 0x0A] @ ''  \"errors\": ''
                                        @ quote (run_stderr r)
                                        @ [CHR 0x0A] @ ''}''))]])]))"
proof (intro conjI impI)
  assume "exec command projectPath 60000 w = (Fulfilled (out, err), w')"
  from runTests_fulfilled[where exec = exec, OF assms this]
  show "runTests E exec projectPath testPattern framework w
              = (Fulfilled
                   (JObj [(''content'',
                      JArr [JObj [(''type'', JStr ''text''),
                                  (''text'',
                                   JStr (''{'' @ [CHR 0x0A] @ ''  \"success\": ''
                                         @ (if err = [] then ''true'' else ''false'')
                                         @ '','' @ [CHR 0x0A] @ ''  \"output\": '' @ quote out
                                         @ '','' @ [CHR 0x0A] @ ''  \"errors\": '' @ quote err
                                         @ [CHR 0x0A] @ ''}''))]])]),
                 w')" .
next
  assume h: "runs os command projectPath 60000 = Inr r \<and> ended r = Exit 0 \<and>
          length (run_stdout r) \<le> max_buffer \<and> length (run_stderr r) \<le> max_buffer"
  then have "node_exec command projectPath 60000 os
           = (Fulfilled (run_stdout r, run_stderr r),
              os\<lparr>spawned := spawned os
                     @ [(command, if left_running r then Running else Gone)]\<rparr>)"
    by (simp add: node_exec_fulfilled)
  from runTests_fulfilled[where exec = node_exec, OF assms this]
  show "fst (runTests E node_exec projectPath testPattern framework os)
              = Fulfilled
                  (JObj [(''content'',
                     JArr [JObj [(''type'', JStr ''text''),
                                 (''text'',
                                  JStr (''{'' @ [CHR 0x0A] @ ''  \"success\": ''
                                        @ (if run_stderr r = [] then ''true'' else ''false'')
                                        @ '','' @ [CHR 0x0A] @ ''  \"output\": ''
                                        @ quote (run_stdout r)
                                        @ '','' @ [CHR 0x0A] @ ''  \"errors\": ''
                                        @ quote (run_stderr r)
                                        @ [CHR 0x0A] @ ''}''))]])])"
    by simp
qed

lemma quote_plain_examples:
  "quote ''1 passed'' = ''\"1 passed\"''"
  "quote ''deprecation warning'' = ''\"deprecation warning\"''"
  "quote [] = ''\"\"''"
  "quote ''stdout maxBuffer length exceeded'' = ''\"stdout maxBuffer length exceeded\"''"
  by (simp_all add: quote_def quote_char_def)

theorem runTests_success_iff_no_stderr_witness:
  "test_command (chosen_framework demo (Some (JStr ''proj'')) None) None
     = Inr ''npx jest --verbose --coverage'' \<and>
   fst (runTests demo node_exec (Some (JStr ''proj'')) None None os_warn)
     = Fulfilled
         (JObj [(''content'',
            JArr [JObj [(''type'', JStr ''text''),
                        (''text'',
                         JStr (''{'' @ [CHR 0x0A] @ ''  \"success\": false,'' @ [CHR 0x0A]
                               @ ''  \"output\": \"1 passed\",'' @ [CHR 0x0A]
                               @ ''  \"errors\": \"deprecation warning\"'' @ [CHR 0x0A]
                               @ ''}''))]])]) \<and>
   fst (runTests demo node_exec (Some (JStr ''proj'')) None None os_clean)
     = Fulfilled
         (JObj [(''content'',
            JArr [JObj [(''type'', JStr ''text''),
                        (''text'',
                         JStr (''{'' @ [CHR 0x0A] @ ''  \"success\": true,'' @ [CHR 0x0A]
                               @ ''  \"output\": \"1 passed\",'' @ [CHR 0x0A]
                               @ ''  \"errors\": \"\"'' @ [CHR 0x0A]
                               @ ''}''))]])])"
proof -
  let ?cmd = "''npx jest --verbose --coverage''"
  let ?warn = "\<lparr>ended = Exit 0, run_stdout = ''1 passed'',
                 run_stderr = ''deprecation warning'', run_error = [],
                 left_running = False\<rparr>"
  let ?clean = "\<lparr>ended = Exit 0, run_stdout = ''1 passed'', run_stderr = [],
                  run_error = [], left_running = False\<rparr>"
  have 1: "fst (runTests demo node_exec (Some (JStr ''proj'')) None None os_warn)
     = Fulfilled
         (JObj [(''content'',
            JArr [JObj [(''type'', JStr ''text''),
                        (''text'',
                         JStr (''{'' @ [CHR 0x0A] @ ''  \"success\": false,'' @ [CHR 0x0A]
                               @ ''  \"output\": \"1 passed\",'' @ [CHR 0x0A]
                               @ ''  \"errors\": \"deprecation warning\"'' @ [CHR 0x0A]
                               @ ''}''))]])])"
    using runTests_success_iff_no_stderr[OF demo_command, THEN conjunct2, rule_format,
        of os_warn ?warn]
    by (simp add: os_warn_def max_buffer_def quote_plain_examples)
  have 2: "fst (runTests demo node_exec (Some (JStr ''proj'')) None None os_clean)
     = Fulfilled
         (JObj [(''content'',
            JArr [JObj [(''type'', JStr ''text''),
                        (''text'',
                         JStr (''{'' @ [CHR 0x0A] @ ''  \"success\": true,'' @ [CHR 0x0A]
                               @ ''  \"output\": \"1 passed\",'' @ [CHR 0x0A]
                               @ ''  \"errors\": \"\"'' @ [CHR 0x0A]
                               @ ''}''))]])])"
    using runTests_success_iff_no_stderr[OF demo_command, THEN conjunct2, rule_format,
        of os_clean ?clean]
    by (simp add: os_clean_def max_buffer_def quote_plain_examples)
  from demo_command 1 2 show ?thesis by blast
qed

lemma length_flood: "length flood = 1048577"
  by (simp only: flood_def length_replicate)

text \<open>
  C9, as the claim states it, fails: a subprocess that exits with code zero within the
  timeout and writes nothing to its standard error, but one byte more than 1 MiB to its
  standard output, makes \<open>exec\<close> reject, and the reported result has
  \<open>success: false\<close>.
\<close>

theorem runTests_output_overflow_counterexample:
  "runs os_flood ''npx jest --verbose --coverage'' (Some (JStr ''proj'')) 60000
     = Inr \<lparr>ended = Exit 0, run_stdout = flood, run_stderr = [],
            run_error = ''stdout maxBuffer length exceeded'', left_running = False\<rparr> \<and>
   fst (runTests demo node_exec (Some (JStr ''proj'')) None None os_flood)
     = Fulfilled
         (JObj [(''content'',
            JArr [JObj [(''type'', JStr ''text''),
                        (''text'',
                         JStr (''{'' @ [CHR 0x0A] @ ''  \"success\": false,'' @ [CHR 0x0A]
                               @ ''  \"output\": \"\",'' @ [CHR 0x0A]
                               @ ''  \"errors\": \"stdout maxBuffer length exceeded\"''
                               @ [CHR 0x0A] @ ''}''))]])])"
proof -
  have "node_exec ''npx jest --verbose --coverage'' (Some (JStr ''proj'')) 60000 os_flood
          = (Rejected ''stdout maxBuffer length exceeded'',
             os_flood\<lparr>spawned := spawned os_flood
                          @ [(''npx jest --verbose --coverage'', Gone)]\<rparr>)"
    by (simp add: node_exec_def os_flood_def Let_def length_flood max_buffer_def)
  from runTests_rejected[where exec = node_exec, OF demo_command this]
  show ?thesis
    by (simp add: os_flood_def failed_run_text quote_plain_examples)
qed










end
